theory Spec2Isabelle
  imports Complex_Main
begin

section \<open>Site interactivity script (js/main.js): a shallow embedding\<close>

text \<open>
  The script is one immediately invoked function that reads the saved theme, then
  registers event listeners on the elements it finds.  Each listener is modelled as
  a function from the part of the page it reads and writes to the updated part.
  What the browser does natively (the key-value store, \<open>showModal\<close>, \<open>close\<close>,
  timers, event delivery) is modelled beside the listeners and marked as such.
\<close>

subsection \<open>Exceptions\<close>

text \<open>
  The script has no \<open>try\<close> block.  The only calls in it that can throw are the two
  accesses to \<open>localStorage\<close>: reading it throws a SecurityError when the page may
  not use storage, and \<open>setItem\<close> throws a QuotaExceededError when nothing can be
  written.  A listener that throws keeps the mutations made before the throw.
\<close>

datatype error = SecurityError | QuotaExceededError

datatype 'a outcome = Completed 'a | Threw error 'a

fun state_of :: "'a outcome \<Rightarrow> 'a" where
  "state_of (Completed s) = s"
| "state_of (Threw e s) = s"

subsection \<open>Theme toggle\<close>

text \<open>
  \<open>data_theme\<close> is \<open>document.documentElement.dataset.theme\<close> (\<open>None\<close> when the
  attribute is absent), \<open>prefers_dark\<close> the answer of
  \<open>matchMedia('(prefers-color-scheme: dark)').matches\<close>, \<open>storage\<close> the contents of
  \<open>localStorage\<close>, \<open>read_fault\<close> and \<open>write_fault\<close> the exception the store throws on
  a read or a write (if any), and \<open>toggle_label\<close> the \<open>aria-label\<close> of the toggle.
\<close>

record theme_st =
  data_theme :: "string option"
  prefers_dark :: bool
  storage :: "string \<rightharpoonup> string"
  read_fault :: "error option"
  write_fault :: "error option"
  toggle_label :: "string option"

definition getItem :: "theme_st \<Rightarrow> string \<Rightarrow> error + string option" where
  "getItem s k = (case read_fault s of Some e \<Rightarrow> Inl e | None \<Rightarrow> Inr (storage s k))"

definition setItem :: "theme_st \<Rightarrow> string \<Rightarrow> string \<Rightarrow> error + theme_st" where
  "setItem s k v =
     (case write_fault s of
        Some e \<Rightarrow> Inl e
      | None \<Rightarrow> Inr (s\<lparr>storage := (storage s)(k \<mapsto> v)\<rparr>))"

text \<open>JavaScript truthiness of a value that is a string, \<open>null\<close> or \<open>undefined\<close>.\<close>

definition truthy :: "string option \<Rightarrow> bool" where
  "truthy v = (case v of None \<Rightarrow> False | Some t \<Rightarrow> t \<noteq> [])"

text \<open>
  The two labels are Czech and are written as their UTF-8 bytes: the first says
  "switch to the light theme" (r with caron is C5 99, e with caron C4 9B, y with acute
  C3 BD), the second "switch to the dark theme".
\<close>

definition label_to_light :: string where
  "label_to_light =
     ''P'' @ [CHR 0xC5, CHR 0x99] @ ''epnout na sv'' @ [CHR 0xC4, CHR 0x9B] @ ''tl''
       @ [CHR 0xC3, CHR 0xBD] @ '' motiv''"

definition label_to_dark :: string where
  "label_to_dark =
     ''P'' @ [CHR 0xC5, CHR 0x99] @ ''epnout na tmav'' @ [CHR 0xC3, CHR 0xBD] @ '' motiv''"

text \<open>Lines 56 to 59: restore the saved theme when the script starts.\<close>

definition restore_theme :: "theme_st \<Rightarrow> error + theme_st" where
  "restore_theme s =
     (case getItem s ''theme'' of
        Inl e \<Rightarrow> Inl e
      | Inr savedTheme \<Rightarrow>
          Inr (if truthy savedTheme then s\<lparr>data_theme := savedTheme\<rparr> else s))"

text \<open>Lines 63 to 76: the click listener of the theme toggle.\<close>

definition theme_click :: "theme_st \<Rightarrow> theme_st outcome" where
  "theme_click s =
     (let isDark = (data_theme s = Some ''dark''
                     \<or> (\<not> truthy (data_theme s) \<and> prefers_dark s));
          newTheme = (if isDark then ''light'' else ''dark'');
          s1 = s\<lparr>data_theme := Some newTheme\<rparr>
      in case setItem s1 ''theme'' newTheme of
           Inl e \<Rightarrow> Threw e s1
         | Inr s2 \<Rightarrow>
             Completed (s2\<lparr>toggle_label :=
               Some (if newTheme = ''dark'' then label_to_light else label_to_dark)\<rparr>))"

subsection \<open>The elements the script looks up, and the listeners it registers\<close>

text \<open>
  Each \<open>has_\<close> field says whether the \<open>querySelector\<close> call found an element;
  the three counts are the lengths of the \<open>querySelectorAll\<close> results.
\<close>

record dom =
  has_theme_toggle :: bool
  has_hamburger :: bool
  has_site_nav :: bool
  nav_links :: nat
  nav_details :: nat
  has_search_dialog :: bool
  has_search_trigger :: bool
  has_search_close :: bool
  has_search_input :: bool
  search_hints :: nat
  has_skip_link :: bool
  has_main :: bool

datatype listener =
    ThemeToggleClick
  | HamburgerClick
  | SiteNavClick
  | NavKeydown
  | NavLinkClick nat
  | DetailsOutsideClick
  | DetailsKeydown
  | DetailsToggle nat
  | SearchTriggerClick
  | SearchCloseClick
  | SearchDialogClick
  | SearchDialogCancel
  | SearchHintClick nat
  | SkipLinkClick

definition registered :: "dom \<Rightarrow> listener list" where
  "registered d =
     (if has_theme_toggle d then [ThemeToggleClick] else [])
     @ (if has_hamburger d \<and> has_site_nav d
        then [HamburgerClick, SiteNavClick, NavKeydown] @ map NavLinkClick [0..<nav_links d]
        else [])
     @ [DetailsOutsideClick, DetailsKeydown]
     @ map DetailsToggle [0..<nav_details d]
     @ (if has_search_dialog d \<and> has_search_trigger d
        then [SearchTriggerClick]
             @ (if has_search_close d then [SearchCloseClick] else [])
             @ [SearchDialogClick, SearchDialogCancel]
             @ map SearchHintClick [0..<search_hints d]
        else [])
     @ (if has_skip_link d \<and> has_main d then [SkipLinkClick] else [])"

text \<open>
  The whole script: the storage read of line 56 comes first, and an exception there
  leaves the function before any listener is registered.
\<close>

definition init :: "dom \<Rightarrow> theme_st \<Rightarrow> error + (theme_st \<times> listener list)" where
  "init d s =
     (case restore_theme s of
        Inl e \<Rightarrow> Inl e
      | Inr s' \<Rightarrow> Inr (s', registered d))"

subsection \<open>Mobile navigation\<close>

text \<open>
  \<open>aria_hidden\<close> is the \<open>aria-hidden\<close> attribute of the panel, \<open>aria_expanded\<close> and
  \<open>ham_label\<close> the \<open>aria-expanded\<close> and \<open>aria-label\<close> attributes of the hamburger,
  \<open>body_overflow\<close> is \<open>document.body.style.overflow\<close>, and \<open>nav_focus\<close> the element
  that has keyboard focus, as far as the \<open>focus()\<close> calls of the script decide it.
\<close>

datatype element = Hamburger | SiteNav | NavLink nat | Summary nat | SearchInput | OtherElement

record nav_st =
  aria_hidden :: "string option"
  aria_expanded :: "string option"
  ham_label :: "string option"
  body_overflow :: string
  nav_focus :: "element option"

text \<open>JavaScript's \<open>String(b)\<close> for a boolean.\<close>

definition js_String :: "bool \<Rightarrow> string" where
  "js_String b = (if b then ''true'' else ''false'')"

text \<open>
  The two hamburger labels, again as UTF-8 bytes: "close the navigation" and
  "open the navigation" (i with acute is C3 AD).
\<close>

definition label_close_nav :: string where
  "label_close_nav = ''Zav'' @ [CHR 0xC5, CHR 0x99, CHR 0xC3, CHR 0xAD] @ ''t navigaci''"

definition label_open_nav :: string where
  "label_open_nav = ''Otev'' @ [CHR 0xC5, CHR 0x99, CHR 0xC3, CHR 0xAD] @ ''t navigaci''"

text \<open>Lines 88 to 101.\<close>

definition hamburger_click :: "nav_st \<Rightarrow> nav_st" where
  "hamburger_click s =
     (let isOpen = (aria_hidden s = Some ''false'');
          newState = (\<not> isOpen)
      in s\<lparr>aria_hidden := Some (js_String (\<not> newState)),
            aria_expanded := Some (js_String newState),
            ham_label := Some (if newState then label_close_nav else label_open_nav),
            body_overflow := (if newState then ''hidden'' else '''')\<rparr>)"

text \<open>Lines 125 to 130.\<close>

definition closeNav :: "nav_st \<Rightarrow> nav_st" where
  "closeNav s =
     s\<lparr>aria_hidden := Some ''true'',
       aria_expanded := Some ''false'',
       ham_label := Some label_open_nav,
       body_overflow := ''''\<rparr>"

text \<open>Lines 104 to 110: a click inside the panel; \<open>target\<close> is \<open>e.target\<close>.\<close>

definition sitenav_click :: "element \<Rightarrow> nav_st \<Rightarrow> nav_st" where
  "sitenav_click target s = (if target = SiteNav then closeNav s else s)"

text \<open>Lines 113 to 118: a key press anywhere in the document; \<open>key\<close> is \<open>e.key\<close>.\<close>

definition nav_keydown :: "string \<Rightarrow> nav_st \<Rightarrow> nav_st" where
  "nav_keydown key s =
     (if key = ''Escape'' \<and> aria_hidden s = Some ''false''
      then (closeNav s)\<lparr>nav_focus := Some Hamburger\<rparr>
      else s)"

text \<open>Lines 121 to 123: every link of the panel has \<open>closeNav\<close> itself as listener.\<close>

definition navlink_click :: "nav_st \<Rightarrow> nav_st" where
  "navlink_click s = closeNav s"

subsection \<open>Dropdown menus\<close>

text \<open>
  The \<open>details\<close> elements matched by \<open>.site-nav details\<close>, in document order, each
  with its \<open>open\<close> attribute.  Lines 159 to 167 give every one of them a \<open>toggle\<close>
  listener; \<open>details_toggle i\<close> is the listener of the element at index \<open>i\<close>.
\<close>

type_synonym nav_group = "bool list"

definition details_toggle :: "nat \<Rightarrow> nav_group \<Rightarrow> nav_group" where
  "details_toggle i ds =
     (if i < length ds \<and> ds ! i
      then map (\<lambda>j. if j \<noteq> i then False else ds ! j) [0..<length ds]
      else ds)"

text \<open>
  Native behaviour: a closed disclosure that is opened gets the \<open>open\<close> attribute,
  then its \<open>toggle\<close> event is delivered.
\<close>

definition open_details :: "nat \<Rightarrow> nav_group \<Rightarrow> nav_group" where
  "open_details i ds = (if i < length ds then details_toggle i (ds[i := True]) else ds)"

subsection \<open>Escape, as the document receives it\<close>

text \<open>
  Lines 148 to 156 register a second \<open>keydown\<close> listener on the document.  It looks
  at every open \<open>details\<close> element of the page (not only those of the navigation),
  in document order, removes its \<open>open\<close> attribute and calls \<open>focus()\<close> on its
  \<open>summary\<close>, if it has one.  \<open>summary_focusable\<close> says that the element has a
  summary that can take focus; \<open>focus()\<close> on anything else moves nothing.
\<close>

record disclosure =
  is_open :: bool
  summary_focusable :: bool

fun close_each :: "nat \<Rightarrow> disclosure list \<Rightarrow> element option
    \<Rightarrow> disclosure list \<times> element option" where
  "close_each i [] f = ([], f)"
| "close_each i (x # xs) f =
     (if is_open x
      then (let r = close_each (Suc i) xs (if summary_focusable x then Some (Summary i) else f)
            in (x\<lparr>is_open := False\<rparr> # fst r, snd r))
      else (let r = close_each (Suc i) xs f in (x # fst r, snd r)))"

record key_page =
  nav :: nav_st
  disclosures :: "disclosure list"

definition details_keydown :: "string \<Rightarrow> key_page \<Rightarrow> key_page" where
  "details_keydown key p =
     (if key = ''Escape''
      then (let r = close_each 0 (disclosures p) (nav_focus (nav p))
            in p\<lparr>nav := (nav p)\<lparr>nav_focus := snd r\<rparr>, disclosures := fst r\<rparr>)
      else p)"

text \<open>
  Both listeners sit on the document and run in the order they were registered:
  the one of the navigation (line 113, present only if the hamburger and the panel
  were found), then the one of the disclosures (line 148).
\<close>

definition document_keydown :: "dom \<Rightarrow> string \<Rightarrow> key_page \<Rightarrow> key_page" where
  "document_keydown d key p =
     details_keydown key
       (if has_hamburger d \<and> has_site_nav d then p\<lparr>nav := nav_keydown key (nav p)\<rparr> else p)"

subsection \<open>Search dialog\<close>

text \<open>
  \<open>dlg_open\<close> is the \<open>open\<close> attribute of the dialog (what \<open>searchDialog.open\<close>
  reads), \<open>data_closing\<close> says whether the \<open>data-closing\<close> attribute is present,
  \<open>animationend_once\<close> counts the \<open>animationend\<close> listeners registered with
  \<open>once: true\<close> that have not run yet, \<open>timers\<close> holds the pending \<open>setTimeout\<close>
  callbacks with the time at which each is due, in the order they were set, \<open>now\<close>
  is the clock of the event loop in milliseconds (a callback runs when the time it was
  set for is reached), \<open>input_value\<close> the value the search field holds, and
  \<open>dlg_focus\<close> the element on which this feature last called \<open>focus()\<close>.
\<close>

datatype timer_cb = FocusInput | Fallback

type_synonym utf16 = "nat list"

record dialog_st =
  dlg_open :: bool
  data_closing :: bool
  animationend_once :: nat
  timers :: "(nat \<times> timer_cb) list"
  now :: nat
  input_value :: utf16
  dlg_focus :: "element option"

text \<open>
  Native behaviour.  The script opens the dialog with \<open>showModal\<close> only, so an open
  dialog is a modal one, on which \<open>showModal\<close> returns at once.  \<open>close\<close> returns at
  once on a dialog without the \<open>open\<close> attribute.  \<open>setTimeout\<close> queues a callback.
\<close>

definition showModal :: "dialog_st \<Rightarrow> dialog_st" where
  "showModal s = (if dlg_open s then s else s\<lparr>dlg_open := True\<rparr>)"

definition native_close :: "dialog_st \<Rightarrow> dialog_st" where
  "native_close s = (if dlg_open s then s\<lparr>dlg_open := False\<rparr> else s)"

definition setTimeout :: "timer_cb \<Rightarrow> nat \<Rightarrow> dialog_st \<Rightarrow> dialog_st" where
  "setTimeout cb delay s = s\<lparr>timers := timers s @ [(now s + delay, cb)]\<rparr>"

text \<open>Lines 183 to 195.\<close>

definition search_trigger_click :: "dialog_st \<Rightarrow> dialog_st" where
  "search_trigger_click s = setTimeout FocusInput 50 (showModal s)"

text \<open>The callback of line 194: \<open>searchInput?.focus()\<close>.\<close>

definition focus_timer :: "dom \<Rightarrow> dialog_st \<Rightarrow> dialog_st" where
  "focus_timer d s = (if has_search_input d then s\<lparr>dlg_focus := Some SearchInput\<rparr> else s)"

text \<open>Lines 234 to 238: the listener \<open>closeSearch\<close> registers for \<open>animationend\<close>.\<close>

definition animationend_listener :: "dialog_st \<Rightarrow> dialog_st" where
  "animationend_listener s = native_close (s\<lparr>data_closing := False\<rparr>)"

text \<open>Lines 242 to 247: the callback \<open>closeSearch\<close> hands to \<open>setTimeout\<close>.\<close>

definition fallback_timer :: "dialog_st \<Rightarrow> dialog_st" where
  "fallback_timer s =
     (if dlg_open s then native_close (s\<lparr>data_closing := False\<rparr>) else s)"

text \<open>Lines 230 to 248.\<close>

definition closeSearch :: "dialog_st \<Rightarrow> dialog_st" where
  "closeSearch s =
     (let s1 = s\<lparr>data_closing := True\<rparr>;
          s2 = s1\<lparr>animationend_once := Suc (animationend_once s1)\<rparr>
      in setTimeout Fallback 300 s2)"

text \<open>
  Lines 201 to 210: a click on the dialog; \<open>rect\<close> is what
  \<open>getBoundingClientRect()\<close> returns at that moment.
\<close>

record rect =
  r_left :: real
  r_right :: real
  r_top :: real
  r_bottom :: real

definition clickedBackdrop :: "real \<Rightarrow> real \<Rightarrow> rect \<Rightarrow> bool" where
  "clickedBackdrop clientX clientY r =
     (clientX < r_left r \<or> clientX > r_right r \<or> clientY < r_top r \<or> clientY > r_bottom r)"

definition search_dialog_click :: "real \<Rightarrow> real \<Rightarrow> rect \<Rightarrow> dialog_st \<Rightarrow> dialog_st" where
  "search_dialog_click clientX clientY r s =
     (if clickedBackdrop clientX clientY r then closeSearch s else s)"

text \<open>
  Lines 213 to 218: \<open>preventDefault\<close> keeps the browser from closing the dialog
  itself, so \<open>closeSearch\<close> is all that happens.
\<close>

definition search_dialog_cancel :: "dialog_st \<Rightarrow> dialog_st" where
  "search_dialog_cancel s = closeSearch s"

text \<open>
  \<open>String.prototype.trim\<close> removes the white space and line terminators of
  ECMAScript from both ends.  They are given by their UTF-16 code units: tab, line
  feed, vertical tab, form feed, carriage return, space, no-break space, the
  space separators U+1680, U+2000 to U+200A, U+202F, U+205F and U+3000, the line
  and paragraph separators U+2028 and U+2029, and the byte order mark U+FEFF.
\<close>

definition js_whitespace :: "nat \<Rightarrow> bool" where
  "js_whitespace c =
     (c \<in> {0x9, 0xA, 0xB, 0xC, 0xD, 0x20, 0xA0, 0x1680, 0x2028, 0x2029, 0x202F,
            0x205F, 0x3000, 0xFEFF}
      \<or> (0x2000 \<le> c \<and> c \<le> 0x200A))"

definition js_trim :: "utf16 \<Rightarrow> utf16" where
  "js_trim t = rev (dropWhile js_whitespace (rev (dropWhile js_whitespace t)))"

text \<open>
  Native behaviour: assigning to \<open>value\<close> of a single-line text field stores the
  string without its line feeds and carriage returns.
\<close>

definition value_setter :: "utf16 \<Rightarrow> utf16" where
  "value_setter v = filter (\<lambda>c. c \<noteq> 0xA \<and> c \<noteq> 0xD) v"

text \<open>Lines 221 to 228; \<open>textContent\<close> is the text of the hint that was clicked.\<close>

definition search_hint_click :: "dom \<Rightarrow> utf16 \<Rightarrow> dialog_st \<Rightarrow> dialog_st" where
  "search_hint_click d textContent s =
     (if has_search_input d
      then (s\<lparr>input_value := value_setter (js_trim textContent)\<rparr>)
             \<lparr>dlg_focus := Some SearchInput\<rparr>
      else s)"


subsection \<open>The dialog under a sequence of events\<close>

text \<open>
  What can happen to the dialog: the five user events the script listens to, the
  browser reporting the end of an animation on the dialog, and time passing.
\<close>

datatype event =
    TriggerClick
  | CloseClick
  | DialogClick real real rect
  | Cancel
  | HintClick utf16
  | AnimationEnd
  | Elapse nat

fun run_timer :: "dom \<Rightarrow> timer_cb \<Rightarrow> dialog_st \<Rightarrow> dialog_st" where
  "run_timer d FocusInput s = focus_timer d s"
| "run_timer d Fallback s = fallback_timer s"

text \<open>
  Time passing by \<open>n\<close> milliseconds: the callbacks that are due by then run, the
  earliest first and in the order they were set among equals (\<open>sort_key\<close> is
  stable).  Neither callback sets a timer, so the due ones are known beforehand.
\<close>

definition elapse :: "dom \<Rightarrow> nat \<Rightarrow> dialog_st \<Rightarrow> dialog_st" where
  "elapse d n s =
     (let t = now s + n;
          due = sort_key fst (filter (\<lambda>p. fst p \<le> t) (timers s));
          rest = filter (\<lambda>p. \<not> fst p \<le> t) (timers s)
      in fold (run_timer d) (map snd due) (s\<lparr>now := t, timers := rest\<rparr>))"

text \<open>
  An \<open>animationend\<close> event runs every pending once-listener and leaves none.
\<close>

definition animation_end :: "dialog_st \<Rightarrow> dialog_st" where
  "animation_end s =
     (animationend_listener ^^ animationend_once s) (s\<lparr>animationend_once := 0\<rparr>)"

text \<open>
  Line 180: the listeners of the dialog exist only if both the dialog and its trigger
  were found; line 198: the close button is optional.
\<close>

fun dlg_step :: "dom \<Rightarrow> event \<Rightarrow> dialog_st \<Rightarrow> dialog_st" where
  "dlg_step d (Elapse n) s = elapse d n s"
| "dlg_step d ev s =
     (if has_search_dialog d \<and> has_search_trigger d
      then (case ev of
              TriggerClick \<Rightarrow> search_trigger_click s
            | CloseClick \<Rightarrow> (if has_search_close d then closeSearch s else s)
            | DialogClick x y r \<Rightarrow> search_dialog_click x y r s
            | Cancel \<Rightarrow> search_dialog_cancel s
            | HintClick t \<Rightarrow> search_hint_click d t s
            | AnimationEnd \<Rightarrow> animation_end s
            | Elapse n \<Rightarrow> s)
      else s)"

fun run :: "dom \<Rightarrow> event list \<Rightarrow> dialog_st \<Rightarrow> dialog_st" where
  "run d [] s = s"
| "run d (ev # evs) s = run d evs (dlg_step d ev s)"

text \<open>The events that ask for the dialog to be closed.\<close>

fun close_request :: "dom \<Rightarrow> event \<Rightarrow> bool" where
  "close_request d CloseClick = has_search_close d"
| "close_request d (DialogClick x y r) = clickedBackdrop x y r"
| "close_request d Cancel = True"
| "close_request d ev = False"

text \<open>
  The events that can follow a close request until the dialog is opened again: the
  trigger is not clicked, and a further click on the close button or the backdrop,
  or a further Escape, reaches the dialog only while it is still shown.
\<close>

fun close_phase :: "dom \<Rightarrow> event list \<Rightarrow> dialog_st \<Rightarrow> bool" where
  "close_phase d [] s = True"
| "close_phase d (ev # evs) s =
     (ev \<noteq> TriggerClick \<and> (close_request d ev \<longrightarrow> dlg_open s)
      \<and> close_phase d evs (dlg_step d ev s))"

subsection \<open>Predicates and example states used in the statements\<close>

text \<open>The closed panel as the spec describes it.\<close>

definition nav_closed :: "nav_st \<Rightarrow> bool" where
  "nav_closed s =
     (aria_hidden s = Some ''true'' \<and> aria_expanded s = Some ''false''
      \<and> body_overflow s = '''')"

text \<open>
  The closed state of the dialog; the weaker fact that a dialog which is not open has
  no marker; and what holds from a close request made at time \<open>t0 - 300\<close> on: while
  the dialog is still open, \<open>t0\<close> has not been reached and a fallback callback due
  by \<open>t0\<close> is pending.
\<close>

definition settled :: "dialog_st \<Rightarrow> bool" where
  "settled s = (\<not> dlg_open s \<and> \<not> data_closing s)"

definition marker_ok :: "dialog_st \<Rightarrow> bool" where
  "marker_ok s = (dlg_open s \<or> \<not> data_closing s)"

definition closing_inv :: "nat \<Rightarrow> dialog_st \<Rightarrow> bool" where
  "closing_inv t0 s =
     (if dlg_open s
      then now s < t0 \<and> (\<exists>w\<le>t0. (w, Fallback) \<in> set (timers s))
      else \<not> data_closing s)"

text \<open>
  A page on which every element is found; a first visit with a dark system theme
  and a working store; the same page after the dark theme was chosen; an open
  navigation panel; and the dialog shown and at rest.
\<close>

definition dom0 :: dom where
  "dom0 = \<lparr>has_theme_toggle = True, has_hamburger = True, has_site_nav = True,
           nav_links = 2, nav_details = 2, has_search_dialog = True,
           has_search_trigger = True, has_search_close = True, has_search_input = True,
           search_hints = 1, has_skip_link = True, has_main = True\<rparr>"

definition page0 :: theme_st where
  "page0 = \<lparr>data_theme = None, prefers_dark = True, storage = Map.empty,
            read_fault = None, write_fault = None, toggle_label = None\<rparr>"

definition page_dark :: theme_st where
  "page_dark = page0\<lparr>data_theme := Some ''dark'', storage := [''theme'' \<mapsto> ''dark'']\<rparr>"

definition nav_opened :: nav_st where
  "nav_opened =
     \<lparr>aria_hidden = Some ''false'', aria_expanded = Some ''true'',
      ham_label = Some label_close_nav, body_overflow = ''hidden'', nav_focus = None\<rparr>"

definition dlg_shown :: dialog_st where
  "dlg_shown =
     \<lparr>dlg_open = True, data_closing = False, animationend_once = 0,
      timers = [], now = 1000, input_value = [], dlg_focus = None\<rparr>"



text \<open>
  The open panel with an open dropdown in it, once with a summary that can take
  focus and once with one that cannot.
\<close>

definition page_menu_open :: key_page where
  "page_menu_open =
     \<lparr>nav = nav_opened,
      disclosures = [\<lparr>is_open = False, summary_focusable = True\<rparr>,
                     \<lparr>is_open = True, summary_focusable = True\<rparr>]\<rparr>"

definition page_menu_shut :: key_page where
  "page_menu_shut =
     \<lparr>nav = nav_opened,
      disclosures = [\<lparr>is_open = False, summary_focusable = True\<rparr>,
                     \<lparr>is_open = True, summary_focusable = False\<rparr>]\<rparr>"

section \<open>Theme toggle: properties\<close>

text \<open>
  Claim C2, as stated, fails: the script does not catch a storage error.  With a
  store that refuses reads the script ends with the exception and registers no
  listener, whereas with an empty store it registers them all; and a refused write
  ends the click listener with the exception, after the attribute was changed and
  before the label is.
\<close>

theorem storage_error_propagates:
  "init dom0 (page0\<lparr>read_fault := Some SecurityError\<rparr>) = Inl SecurityError
   \<and> init dom0 page0 = Inr (page0, registered dom0)
   \<and> theme_click (page0\<lparr>write_fault := Some QuotaExceededError\<rparr>)
       = Threw QuotaExceededError
           (page0\<lparr>write_fault := Some QuotaExceededError, data_theme := Some ''light''\<rparr>)"
  by (simp add: init_def restore_theme_def getItem_def page0_def truthy_def
      theme_click_def setItem_def Let_def)

text \<open>
  Claim C2, amended.  A storage error is not caught.  If the read on load throws,
  the exception leaves the script before any listener is registered.  Only a store
  that answers, and has no saved value (none, or the empty string), is "no saved
  preference": the page is left as it is and the listeners are registered.  If the
  write on toggle throws, the document attribute has already been flipped, and the
  exception leaves the listener with nothing stored and the label not updated.
\<close>

theorem storage_error_outcomes:
  "(read_fault s = Some e \<longrightarrow> init d s = Inl e)
   \<and> (read_fault s = None \<and> \<not> truthy (storage s ''theme'')
        \<longrightarrow> init d s = Inr (s, registered d))
   \<and> (write_fault s = Some e \<longrightarrow>
        theme_click s =
          Threw e (s\<lparr>data_theme :=
            Some (if data_theme s = Some ''dark''
                      \<or> (\<not> truthy (data_theme s) \<and> prefers_dark s)
                  then ''light'' else ''dark'')\<rparr>))"
proof (intro conjI impI)
  assume "read_fault s = Some e"
  then show "init d s = Inl e"
    by (simp add: init_def restore_theme_def getItem_def)
next
  assume "read_fault s = None \<and> \<not> truthy (storage s ''theme'')"
  then show "init d s = Inr (s, registered d)"
    by (simp add: init_def restore_theme_def getItem_def)
next
  assume "write_fault s = Some e"
  then show "theme_click s =
          Threw e (s\<lparr>data_theme :=
            Some (if data_theme s = Some ''dark''
                      \<or> (\<not> truthy (data_theme s) \<and> prefers_dark s)
                  then ''light'' else ''dark'')\<rparr>)"
    by (simp add: theme_click_def setItem_def Let_def)
qed

theorem storage_error_outcomes_witness:
  "read_fault (page_dark\<lparr>read_fault := Some SecurityError\<rparr>) = Some SecurityError
   \<and> init dom0 (page_dark\<lparr>read_fault := Some SecurityError\<rparr>) = Inl SecurityError
   \<and> read_fault page0 = None \<and> \<not> truthy (storage page0 ''theme'')
   \<and> init dom0 page0 = Inr (page0, registered dom0)
   \<and> write_fault (page_dark\<lparr>write_fault := Some QuotaExceededError\<rparr>)
       = Some QuotaExceededError
   \<and> theme_click (page_dark\<lparr>write_fault := Some QuotaExceededError\<rparr>)
       = Threw QuotaExceededError
           (page_dark\<lparr>write_fault := Some QuotaExceededError, data_theme := Some ''light''\<rparr>)"
  using storage_error_outcomes [of "page_dark\<lparr>read_fault := Some SecurityError\<rparr>" SecurityError dom0]
    storage_error_outcomes [of page0 SecurityError dom0]
    storage_error_outcomes [of "page_dark\<lparr>write_fault := Some QuotaExceededError\<rparr>"
      QuotaExceededError dom0]
  by (simp add: page_dark_def page0_def truthy_def)

text \<open>
  Claim C3, as stated, fails: on a first visit the attribute is unset and nothing is
  stored, and after two activations both are \<open>dark\<close>.
\<close>

theorem toggle_twice_from_unset:
  "data_theme page0 = None \<and> storage page0 ''theme'' = None
   \<and> data_theme (state_of (theme_click (state_of (theme_click page0)))) = Some ''dark''
   \<and> storage (state_of (theme_click (state_of (theme_click page0)))) ''theme''
       = Some ''dark''"
  by (simp add: page0_def theme_click_def setItem_def Let_def truthy_def)

text \<open>
  Claim C3, amended.  When the document theme attribute is \<open>light\<close> or \<open>dark\<close>
  and, on a store that accepts writes, the stored preference equals it, activating
  the theme toggle twice leaves the attribute and the stored preference equal to
  their values before the first activation.
\<close>

theorem toggle_twice_restores:
  assumes attr: "data_theme s = Some t"
    and explicit: "t = ''light'' \<or> t = ''dark''"
    and stored: "write_fault s = None \<longrightarrow> storage s ''theme'' = Some t"
  shows "data_theme (state_of (theme_click (state_of (theme_click s)))) = data_theme s
       \<and> storage (state_of (theme_click (state_of (theme_click s)))) ''theme''
           = storage s ''theme''"
proof (cases "write_fault s")
  case None
  with assms show ?thesis
    by (auto simp add: theme_click_def setItem_def Let_def truthy_def)
next
  case (Some e)
  with attr explicit show ?thesis
    by (auto simp add: theme_click_def setItem_def Let_def truthy_def)
qed

theorem toggle_twice_restores_witness:
  "data_theme page_dark = Some ''dark''
   \<and> write_fault page_dark = None \<and> storage page_dark ''theme'' = Some ''dark''
   \<and> data_theme (state_of (theme_click (state_of (theme_click page_dark))))
       = Some ''dark''
   \<and> storage (state_of (theme_click (state_of (theme_click page_dark)))) ''theme''
       = Some ''dark''"
proof -
  have a: "data_theme page_dark = Some ''dark''"
    by (simp add: page_dark_def page0_def)
  have b: "''dark'' = ''light'' \<or> ''dark'' = ''dark''"
    by simp
  have c: "write_fault page_dark = None \<longrightarrow> storage page_dark ''theme'' = Some ''dark''"
    by (simp add: page_dark_def page0_def)
  from toggle_twice_restores [OF a b c] a c show ?thesis
    by (simp add: page_dark_def page0_def)
qed

text \<open>
  Claim C4.  With the document theme attribute unset, the system preference dark
  and a store that accepts writes, the first activation of the toggle sets the
  attribute to \<open>light\<close> and stores \<open>light\<close> under the key \<open>theme\<close>, and the
  second sets the attribute to \<open>dark\<close> and stores \<open>dark\<close>.
\<close>

theorem toggle_from_unset_dark:
  assumes "data_theme s = None" and "prefers_dark s" and "write_fault s = None"
  shows "\<exists>s1 s2. theme_click s = Completed s1
           \<and> data_theme s1 = Some ''light'' \<and> storage s1 ''theme'' = Some ''light''
           \<and> theme_click s1 = Completed s2
           \<and> data_theme s2 = Some ''dark'' \<and> storage s2 ''theme'' = Some ''dark''"
  using assms by (simp add: theme_click_def setItem_def Let_def truthy_def)

theorem toggle_from_unset_dark_witness:
  "data_theme page0 = None \<and> prefers_dark page0 \<and> write_fault page0 = None
   \<and> (\<exists>s1 s2. theme_click page0 = Completed s1
           \<and> data_theme s1 = Some ''light'' \<and> storage s1 ''theme'' = Some ''light''
           \<and> theme_click s1 = Completed s2
           \<and> data_theme s2 = Some ''dark'' \<and> storage s2 ''theme'' = Some ''dark'')"
proof -
  have a: "data_theme page0 = None" and b: "prefers_dark page0"
    and c: "write_fault page0 = None"
    by (simp_all add: page0_def)
  from toggle_from_unset_dark [OF a b c] a b c show ?thesis
    by blast
qed

text \<open>
  Claim C10.  After an activation of the theme toggle on a store that accepts the
  write, whatever the attribute and the stored value were before, the document theme
  attribute is \<open>light\<close> or \<open>dark\<close>, the value stored under \<open>theme\<close> equals the
  attribute, and the label of the toggle is the one for that theme: it offers the
  light theme when the theme is dark, and the dark theme when it is light.
\<close>

theorem theme_click_invariant:
  assumes "write_fault s = None"
  shows "\<exists>s'. theme_click s = Completed s'
           \<and> (data_theme s' = Some ''light'' \<or> data_theme s' = Some ''dark'')
           \<and> storage s' ''theme'' = data_theme s'
           \<and> toggle_label s'
               = Some (if data_theme s' = Some ''dark'' then label_to_light
                       else label_to_dark)"
proof (cases "data_theme s = Some ''dark'' \<or> (\<not> truthy (data_theme s) \<and> prefers_dark s)")
  case True
  with assms show ?thesis
    by (simp add: theme_click_def setItem_def Let_def)
next
  case False
  with assms show ?thesis
    by (simp add: theme_click_def setItem_def Let_def)
qed

theorem theme_click_invariant_witness:
  "write_fault page_dark = None
   \<and> (\<exists>s'. theme_click page_dark = Completed s'
           \<and> (data_theme s' = Some ''light'' \<or> data_theme s' = Some ''dark'')
           \<and> storage s' ''theme'' = data_theme s'
           \<and> toggle_label s'
               = Some (if data_theme s' = Some ''dark'' then label_to_light
                       else label_to_dark))"
proof -
  have a: "write_fault page_dark = None"
    by (simp add: page_dark_def page0_def)
  from theme_click_invariant [OF a] a show ?thesis
    by blast
qed

section \<open>Mobile navigation: properties\<close>

lemma close_each_keeps_focus:
  "\<forall>x\<in>set xs. \<not> (is_open x \<and> summary_focusable x) \<Longrightarrow> snd (close_each i xs f) = f"
  by (induction xs arbitrary: i f) (simp_all add: Let_def)

lemma document_keydown_nav:
  "nav (document_keydown d key p)
     = (if has_hamburger d \<and> has_site_nav d then nav_keydown key (nav p) else nav p)
         \<lparr>nav_focus := nav_focus (nav (document_keydown d key p))\<rparr>"
  by (simp add: document_keydown_def details_keydown_def Let_def)

text \<open>
  Claim C5, as stated, fails in its last part.  With the panel open and a dropdown
  open in it, Escape closes the panel and focuses the hamburger, and then the
  listener of lines 148 to 156 focuses the summary of the dropdown: keyboard focus
  ends there, not on the hamburger.
\<close>

theorem escape_focus_on_summary:
  "aria_hidden (nav page_menu_open) = Some ''false''
   \<and> nav_closed (nav (document_keydown dom0 ''Escape'' page_menu_open))
   \<and> nav_focus (nav (document_keydown dom0 ''Escape'' page_menu_open)) = Some (Summary 1)"
  by (simp add: page_menu_open_def nav_opened_def dom0_def document_keydown_def
      details_keydown_def nav_keydown_def closeNav_def nav_closed_def Let_def)

text \<open>
  Claim C5, amended.  Each of the three close triggers of the navigation panel (a
  click whose target is the panel itself, Escape while the panel is open, a click on
  a link of the panel) sets \<open>aria-hidden\<close> to \<open>true\<close> on the panel and
  \<open>aria-expanded\<close> to \<open>false\<close> on the trigger and clears the scroll suppression of
  the body, also once every listener of the Escape key press has run; the Escape
  listener of the panel focuses the hamburger, and keyboard focus is on the
  hamburger after the key press when no open disclosure of the page has a summary
  that can take focus.
\<close>

theorem nav_close_triggers:
  "nav_closed (sitenav_click SiteNav s)
   \<and> (aria_hidden s = Some ''false'' \<longrightarrow>
        nav_closed (nav_keydown ''Escape'' s)
        \<and> nav_focus (nav_keydown ''Escape'' s) = Some Hamburger)
   \<and> nav_closed (navlink_click s)
   \<and> (has_hamburger d \<and> has_site_nav d \<and> aria_hidden (nav p) = Some ''false'' \<longrightarrow>
        nav_closed (nav (document_keydown d ''Escape'' p))
        \<and> ((\<forall>x\<in>set (disclosures p). \<not> (is_open x \<and> summary_focusable x)) \<longrightarrow>
             nav_focus (nav (document_keydown d ''Escape'' p)) = Some Hamburger))"
proof -
  have closed: "nav_closed (closeNav s')" for s'
    by (simp add: nav_closed_def closeNav_def)
  have "nav_closed (sitenav_click SiteNav s)"
    using closed by (simp add: sitenav_click_def)
  moreover have "nav_closed (navlink_click s)"
    using closed by (simp add: navlink_click_def)
  moreover have esc: "nav_closed (nav_keydown ''Escape'' s')
        \<and> nav_focus (nav_keydown ''Escape'' s') = Some Hamburger"
    if "aria_hidden s' = Some ''false''" for s'
    using that closed [of s'] by (simp add: nav_keydown_def nav_closed_def)
  moreover have "nav_closed (nav (document_keydown d ''Escape'' p))
        \<and> ((\<forall>x\<in>set (disclosures p). \<not> (is_open x \<and> summary_focusable x)) \<longrightarrow>
             nav_focus (nav (document_keydown d ''Escape'' p)) = Some Hamburger)"
    if w: "has_hamburger d \<and> has_site_nav d" and o: "aria_hidden (nav p) = Some ''false''"
  proof
    from esc [OF o] have "nav_closed (nav_keydown ''Escape'' (nav p))"
      by simp
    then show "nav_closed (nav (document_keydown d ''Escape'' p))"
      using w by (subst document_keydown_nav) (simp add: nav_closed_def)
  next
    show "(\<forall>x\<in>set (disclosures p). \<not> (is_open x \<and> summary_focusable x)) \<longrightarrow>
             nav_focus (nav (document_keydown d ''Escape'' p)) = Some Hamburger"
    proof
      assume none: "\<forall>x\<in>set (disclosures p). \<not> (is_open x \<and> summary_focusable x)"
      from esc [OF o] have "nav_focus (nav_keydown ''Escape'' (nav p)) = Some Hamburger"
        by simp
      with w none show "nav_focus (nav (document_keydown d ''Escape'' p)) = Some Hamburger"
        by (simp add: document_keydown_def details_keydown_def Let_def
            close_each_keeps_focus)
    qed
  qed
  ultimately show ?thesis
    by blast
qed

theorem nav_close_triggers_witness:
  "aria_hidden nav_opened = Some ''false''
   \<and> nav_closed (sitenav_click SiteNav nav_opened)
   \<and> nav_closed (nav_keydown ''Escape'' nav_opened)
   \<and> nav_focus (nav_keydown ''Escape'' nav_opened) = Some Hamburger
   \<and> nav_closed (navlink_click nav_opened)
   \<and> has_hamburger dom0 \<and> has_site_nav dom0
   \<and> aria_hidden (nav page_menu_shut) = Some ''false''
   \<and> nav_closed (nav (document_keydown dom0 ''Escape'' page_menu_shut))
   \<and> nav_focus (nav (document_keydown dom0 ''Escape'' page_menu_shut)) = Some Hamburger"
  using nav_close_triggers [of nav_opened dom0 page_menu_shut]
  by (simp add: nav_opened_def page_menu_shut_def dom0_def)

text \<open>
  Claim C6.  \<open>closeNav\<close> is idempotent: on a panel that \<open>closeNav\<close> has closed, or
  that the hamburger has closed, it changes nothing, and whatever the state before,
  it leaves the same panel attribute, \<open>aria-expanded\<close>, label and body overflow.
\<close>

theorem closeNav_idempotent:
  "closeNav (closeNav s) = closeNav s
   \<and> (aria_hidden s = Some ''false'' \<longrightarrow> closeNav (hamburger_click s) = hamburger_click s)
   \<and> aria_hidden (closeNav s) = aria_hidden (closeNav s')
   \<and> aria_expanded (closeNav s) = aria_expanded (closeNav s')
   \<and> ham_label (closeNav s) = ham_label (closeNav s')
   \<and> body_overflow (closeNav s) = body_overflow (closeNav s')"
  by (simp add: closeNav_def hamburger_click_def Let_def js_String_def)

theorem closeNav_idempotent_witness:
  "aria_hidden nav_opened = Some ''false''
   \<and> closeNav (hamburger_click nav_opened) = hamburger_click nav_opened
   \<and> closeNav (closeNav nav_opened) = closeNav nav_opened
   \<and> nav_closed (hamburger_click nav_opened)"
  using closeNav_idempotent [of nav_opened nav_opened]
  by (simp add: nav_opened_def nav_closed_def hamburger_click_def Let_def js_String_def)

section \<open>Dropdown menus: properties\<close>

lemma details_toggle_only:
  assumes "i < length ds" and "ds ! i"
  shows "details_toggle i ds = (replicate (length ds) False)[i := True]"
proof (rule nth_equalityI)
  show "length (details_toggle i ds) = length ((replicate (length ds) False)[i := True])"
    using assms by (simp add: details_toggle_def)
next
  fix j
  assume "j < length (details_toggle i ds)"
  with assms show "details_toggle i ds ! j = (replicate (length ds) False)[i := True] ! j"
    by (auto simp add: details_toggle_def nth_list_update)
qed

lemma open_details_only:
  "i < length ds \<Longrightarrow> open_details i ds = (replicate (length ds) False)[i := True]"
  by (simp add: open_details_def details_toggle_only)

lemma filter_single:
  "i < n \<Longrightarrow> filter (\<lambda>b. b) ((replicate n False)[i := True]) = [True]"
  by (simp add: upd_conv_take_nth_drop)

text \<open>
  Claim C7.  Within the group of disclosures under the navigation, once the
  \<open>toggle\<close> listener has run for a disclosure \<open>b\<close> that was opened, \<open>b\<close> is open,
  every other disclosure \<open>a\<close> of the group has lost its \<open>open\<close> attribute, and so at
  most one disclosure of the group is open.
\<close>

theorem accordion_single_open:
  assumes "b < length ds"
  shows "open_details b ds ! b
       \<and> (\<forall>a<length ds. a \<noteq> b \<longrightarrow> \<not> open_details b ds ! a)
       \<and> length (filter (\<lambda>x. x) (open_details b ds)) \<le> 1
       \<and> length (open_details b ds) = length ds"
  using assms by (simp add: open_details_only filter_single)

theorem accordion_single_open_witness:
  "(1::nat) < length [True, False, False]
   \<and> open_details 1 [True, False, False] = [False, True, False]
   \<and> \<not> open_details 1 [True, False, False] ! 0"
  using accordion_single_open [of 1 "[True, False, False]"]
  by (simp add: open_details_def details_toggle_def)

section \<open>Search dialog: properties\<close>






subsection \<open>The fallback timer closes the dialog\<close>

lemma run_timer_frame:
  "now (run_timer d cb s) = now s" "timers (run_timer d cb s) = timers s"
  by (cases cb; simp add: focus_timer_def fallback_timer_def native_close_def)+

lemma fold_timer_frame:
  "now (fold (run_timer d) cbs s) = now s \<and> timers (fold (run_timer d) cbs s) = timers s"
  by (induction cbs arbitrary: s) (simp_all add: run_timer_frame)

lemma run_timer_settled: "settled s \<Longrightarrow> settled (run_timer d cb s)"
  by (cases cb) (simp_all add: settled_def focus_timer_def fallback_timer_def)

lemma fold_timer_settled: "settled s \<Longrightarrow> settled (fold (run_timer d) cbs s)"
  by (induction cbs arbitrary: s) (simp_all add: run_timer_settled)

lemma run_timer_marker_ok: "marker_ok s \<Longrightarrow> marker_ok (run_timer d cb s)"
  by (cases cb) (auto simp add: marker_ok_def focus_timer_def fallback_timer_def native_close_def)

lemma fold_timer_marker_ok: "marker_ok s \<Longrightarrow> marker_ok (fold (run_timer d) cbs s)"
  by (induction cbs arbitrary: s) (simp_all add: run_timer_marker_ok)

lemma fallback_settles: "marker_ok s \<Longrightarrow> settled (fallback_timer s)"
  by (auto simp add: marker_ok_def settled_def fallback_timer_def native_close_def)

lemma fold_fallback_settles:
  "marker_ok s \<Longrightarrow> Fallback \<in> set cbs \<Longrightarrow> settled (fold (run_timer d) cbs s)"
proof (induction cbs arbitrary: s)
  case Nil
  then show ?case by simp
next
  case (Cons cb cbs)
  show ?case
  proof (cases cb)
    case FocusInput
    with Cons.prems have "Fallback \<in> set cbs" by simp
    moreover have "marker_ok (run_timer d cb s)" using Cons.prems(1) by (rule run_timer_marker_ok)
    ultimately show ?thesis using Cons.IH by simp
  next
    case Fallback
    then have "settled (run_timer d cb s)" using Cons.prems(1) by (simp add: fallback_settles)
    then show ?thesis by (simp add: fold_timer_settled)
  qed
qed

lemma listener_settles: "settled (animationend_listener s)"
  by (simp add: settled_def animationend_listener_def native_close_def)

lemma listeners_settle: "0 < n \<Longrightarrow> settled ((animationend_listener ^^ n) s)"
  by (cases n) (simp_all add: listener_settles)

lemma settled_inv: "settled s \<Longrightarrow> closing_inv t0 s"
  by (simp add: settled_def closing_inv_def)

lemma closeSearch_inv:
  "dlg_open s \<Longrightarrow> closing_inv t0 s \<Longrightarrow> closing_inv t0 (closeSearch s)"
  by (auto simp add: closing_inv_def closeSearch_def setTimeout_def Let_def)

lemma closeSearch_starts:
  "dlg_open s \<Longrightarrow> closing_inv (now s + 300) (closeSearch s)"
  by (auto simp add: closing_inv_def closeSearch_def setTimeout_def Let_def)

lemma elapse_inv:
  assumes "closing_inv t0 s"
  shows "closing_inv t0 (elapse d n s)"
proof -
  let ?t = "now s + n"
  let ?due = "sort_key fst (filter (\<lambda>p. fst p \<le> ?t) (timers s))"
  let ?rest = "filter (\<lambda>p. \<not> fst p \<le> ?t) (timers s)"
  let ?s0 = "s\<lparr>now := ?t, timers := ?rest\<rparr>"
  have el: "elapse d n s = fold (run_timer d) (map snd ?due) ?s0"
    by (simp add: elapse_def Let_def)
  show ?thesis
  proof (cases "dlg_open s")
    case False
    with assms have "settled ?s0" by (simp add: closing_inv_def settled_def)
    then show ?thesis unfolding el by (intro settled_inv fold_timer_settled)
  next
    case True
    with assms obtain w where w: "w \<le> t0" "(w, Fallback) \<in> set (timers s)" and lt: "now s < t0"
      by (auto simp add: closing_inv_def)
    have mk: "marker_ok ?s0" using True by (simp add: marker_ok_def)
    show ?thesis
    proof (cases "w \<le> ?t")
      case True
      with w(2) have "(w, Fallback) \<in> set ?due" by simp
      then have "Fallback \<in> set (map snd ?due)" by force
      with mk have "settled (fold (run_timer d) (map snd ?due) ?s0)"
        by (rule fold_fallback_settles)
      then show ?thesis unfolding el by (rule settled_inv)
    next
      case False
      with w have in_rest: "(w, Fallback) \<in> set ?rest" and tlt: "?t < t0" by auto
      let ?r = "fold (run_timer d) (map snd ?due) ?s0"
      have fr: "now ?r = ?t" "timers ?r = ?rest" using fold_timer_frame [of d "map snd ?due" ?s0] by simp_all
      have "marker_ok ?r" using mk by (rule fold_timer_marker_ok)
      then have "closing_inv t0 ?r"
        using in_rest tlt w(1) unfolding closing_inv_def marker_ok_def fr by auto
      then show ?thesis unfolding el .
    qed
  qed
qed

lemma animation_end_inv:
  assumes "closing_inv t0 s"
  shows "closing_inv t0 (animation_end s)"
proof (cases "animationend_once s")
  case 0
  with assms show ?thesis by (simp add: animation_end_def closing_inv_def)
next
  case (Suc k)
  then have "settled (animation_end s)"
    unfolding animation_end_def by (intro listeners_settle) simp
  then show ?thesis by (rule settled_inv)
qed

lemma hint_inv: "closing_inv t0 s \<Longrightarrow> closing_inv t0 (search_hint_click d t s)"
  by (simp add: search_hint_click_def closing_inv_def)

lemma dlg_step_inv:
  assumes "closing_inv t0 s" "ev \<noteq> TriggerClick" "close_request d ev \<longrightarrow> dlg_open s"
  shows "closing_inv t0 (dlg_step d ev s)"
proof (cases ev)
  case (Elapse n)
  then show ?thesis using assms(1) by (simp add: elapse_inv)
next
  case TriggerClick
  with assms(2) show ?thesis by simp
next
  case CloseClick
  then show ?thesis using assms(1,3) by (simp add: closeSearch_inv)
next
  case (DialogClick x y r)
  then show ?thesis using assms(1,3) by (simp add: search_dialog_click_def closeSearch_inv)
next
  case Cancel
  then show ?thesis using assms(1,3) by (simp add: search_dialog_cancel_def closeSearch_inv)
next
  case (HintClick t)
  then show ?thesis using assms(1) by (simp add: hint_inv)
next
  case AnimationEnd
  then show ?thesis using assms(1) by (simp add: animation_end_inv)
qed

lemma run_inv:
  "closing_inv t0 s \<Longrightarrow> close_phase d evs s \<Longrightarrow> closing_inv t0 (run d evs s)"
  by (induction evs arbitrary: s) (simp_all add: dlg_step_inv)

lemma close_request_step:
  assumes "has_search_dialog d" "has_search_trigger d" "close_request d ev"
  shows "dlg_step d ev s = closeSearch s"
  using assms by (cases ev) (simp_all add: search_dialog_click_def search_dialog_cancel_def)










text \<open>
  Claim C8.  Let the listeners of the dialog be registered and the dialog be open
  when a close request (the close button, a click on the backdrop, or Escape)
  arrives.  Whatever follows before the dialog is opened again, with or without an
  \<open>animationend\<close> event, once 300 milliseconds have passed since the request the
  dialog is closed: it has no \<open>open\<close> attribute and no closing marker.
\<close>

theorem close_request_settles:
  assumes wired: "has_search_dialog d" "has_search_trigger d"
    and opn: "dlg_open s"
    and req: "close_request d ev"
    and phase: "close_phase d evs (dlg_step d ev s)"
    and late: "now s + 300 \<le> now (run d evs (dlg_step d ev s))"
  shows "\<not> dlg_open (run d evs (dlg_step d ev s))
       \<and> \<not> data_closing (run d evs (dlg_step d ev s))"
proof -
  have st: "dlg_step d ev s = closeSearch s"
    using wired req by (rule close_request_step)
  have "closing_inv (now s + 300) (closeSearch s)"
    using opn by (rule closeSearch_starts)
  then have "closing_inv (now s + 300) (run d evs (dlg_step d ev s))"
    using phase unfolding st by (rule run_inv)
  with late show ?thesis
    by (auto simp add: closing_inv_def split: if_splits)
qed

theorem close_request_settles_witness:
  "has_search_dialog dom0 \<and> has_search_trigger dom0 \<and> dlg_open dlg_shown
   \<and> close_request dom0 Cancel
   \<and> close_phase dom0 [HintClick [0x61], CloseClick, Elapse 120, Elapse 180]
        (dlg_step dom0 Cancel dlg_shown)
   \<and> now dlg_shown + 300
       \<le> now (run dom0 [HintClick [0x61], CloseClick, Elapse 120, Elapse 180]
               (dlg_step dom0 Cancel dlg_shown))
   \<and> \<not> dlg_open (run dom0 [HintClick [0x61], CloseClick, Elapse 120, Elapse 180]
               (dlg_step dom0 Cancel dlg_shown))
   \<and> \<not> data_closing (run dom0 [HintClick [0x61], CloseClick, Elapse 120, Elapse 180]
               (dlg_step dom0 Cancel dlg_shown))"
proof -
  have a: "has_search_dialog dom0" "has_search_trigger dom0"
    by (simp_all add: dom0_def)
  have b: "dlg_open dlg_shown"
    by (simp add: dlg_shown_def)
  have c: "close_request dom0 Cancel"
    by simp
  have d: "close_phase dom0 [HintClick [0x61], CloseClick, Elapse 120, Elapse 180]
             (dlg_step dom0 Cancel dlg_shown)"
    by (simp add: dom0_def dlg_shown_def search_dialog_cancel_def closeSearch_def
        setTimeout_def Let_def search_hint_click_def elapse_def)
  have e: "now dlg_shown + 300
             \<le> now (run dom0 [HintClick [0x61], CloseClick, Elapse 120, Elapse 180]
                     (dlg_step dom0 Cancel dlg_shown))"
    by (simp add: dom0_def dlg_shown_def search_dialog_cancel_def closeSearch_def
        setTimeout_def Let_def search_hint_click_def elapse_def fallback_timer_def
        native_close_def)
  show ?thesis
    using a b c d e close_request_settles [OF a b c d e] by simp
qed

end
